theory Spec2Isabelle
  imports Complex_Main "HOL-Library.Word"
begin

section \<open>Numbers of the analyzer\<close>

text \<open>
  The analyzer of \<^verbatim>\<open>color_temp_analyzer.py\<close> computes with IEEE doubles: Python
  \<^verbatim>\<open>float\<close> objects and numpy \<^verbatim>\<open>float64\<close> values. A double is modelled
  as an exact real number or one of the three special values; rounding, overflow and
  the sign of zero are not modelled (every zero is \<^verbatim>\<open>+0.0\<close>).
\<close>

datatype f64 = Fin real | PInf | NInf | NaN

definition signed_inf :: "real \<Rightarrow> f64" where
  "signed_inf s = (if s = 0 then NaN else if 0 < s then PInf else NInf)"

fun f64_neg :: "f64 \<Rightarrow> f64" where
  "f64_neg (Fin a) = Fin (- a)"
| "f64_neg PInf = NInf"
| "f64_neg NInf = PInf"
| "f64_neg NaN = NaN"

fun f64_add :: "f64 \<Rightarrow> f64 \<Rightarrow> f64" where
  "f64_add (Fin a) (Fin b) = Fin (a + b)"
| "f64_add (Fin a) PInf = PInf"
| "f64_add (Fin a) NInf = NInf"
| "f64_add PInf (Fin b) = PInf"
| "f64_add PInf PInf = PInf"
| "f64_add NInf (Fin b) = NInf"
| "f64_add NInf NInf = NInf"
| "f64_add PInf NInf = NaN"
| "f64_add NInf PInf = NaN"
| "f64_add NaN b = NaN"
| "f64_add a NaN = NaN"

definition f64_sub :: "f64 \<Rightarrow> f64 \<Rightarrow> f64" where
  "f64_sub a b = f64_add a (f64_neg b)"

fun f64_mul :: "f64 \<Rightarrow> f64 \<Rightarrow> f64" where
  "f64_mul (Fin a) (Fin b) = Fin (a * b)"
| "f64_mul (Fin a) PInf = signed_inf a"
| "f64_mul (Fin a) NInf = signed_inf (- a)"
| "f64_mul PInf (Fin b) = signed_inf b"
| "f64_mul NInf (Fin b) = signed_inf (- b)"
| "f64_mul PInf PInf = PInf"
| "f64_mul NInf NInf = PInf"
| "f64_mul PInf NInf = NInf"
| "f64_mul NInf PInf = NInf"
| "f64_mul NaN b = NaN"
| "f64_mul a NaN = NaN"

text \<open>
  The IEEE quotient: a finite value divided by zero is an infinity of the dividend's
  sign, and \<^verbatim>\<open>0/0\<close> and \<^verbatim>\<open>inf/inf\<close> are NaN.
\<close>

fun f64_div :: "f64 \<Rightarrow> f64 \<Rightarrow> f64" where
  "f64_div (Fin a) (Fin b) = (if b = 0 then signed_inf a else Fin (a / b))"
| "f64_div (Fin a) PInf = Fin 0"
| "f64_div (Fin a) NInf = Fin 0"
| "f64_div PInf (Fin b) = (if 0 \<le> b then PInf else NInf)"
| "f64_div NInf (Fin b) = (if 0 \<le> b then NInf else PInf)"
| "f64_div PInf PInf = NaN"
| "f64_div PInf NInf = NaN"
| "f64_div NInf PInf = NaN"
| "f64_div NInf NInf = NaN"
| "f64_div NaN b = NaN"
| "f64_div a NaN = NaN"

text \<open>Comparisons: every comparison with NaN is false.\<close>

fun f64_lt :: "f64 \<Rightarrow> f64 \<Rightarrow> bool" where
  "f64_lt (Fin a) (Fin b) = (a < b)"
| "f64_lt (Fin a) PInf = True"
| "f64_lt NInf (Fin b) = True"
| "f64_lt NInf PInf = True"
| "f64_lt a b = False"

fun f64_eq :: "f64 \<Rightarrow> f64 \<Rightarrow> bool" where
  "f64_eq (Fin a) (Fin b) = (a = b)"
| "f64_eq PInf PInf = True"
| "f64_eq NInf NInf = True"
| "f64_eq a b = False"

definition f64_le :: "f64 \<Rightarrow> f64 \<Rightarrow> bool" where
  "f64_le a b = (f64_lt a b \<or> f64_eq a b)"

text \<open>
  \<^verbatim>\<open>pow(base, e)\<close> for a positive exponent that is not an integer (the analyzer
  uses 2.4 only). A negative finite base gives NaN on a numpy scalar.
\<close>

fun f64_pow :: "f64 \<Rightarrow> real \<Rightarrow> f64" where
  "f64_pow (Fin a) e = (if a < 0 then NaN else Fin (a powr e))"
| "f64_pow PInf e = PInf"
| "f64_pow NInf e = PInf"
| "f64_pow NaN e = NaN"

text \<open>\<^verbatim>\<open>x ** k\<close> for a positive integer \<open>k\<close>, as the repeated product.\<close>

fun f64_npow :: "f64 \<Rightarrow> nat \<Rightarrow> f64" where
  "f64_npow x 0 = Fin 1"
| "f64_npow x (Suc k) = f64_mul x (f64_npow x k)"

subsection \<open>Python numbers carry their runtime type\<close>

text \<open>
  The same source expression behaves differently on a Python \<^verbatim>\<open>float\<close> and on a
  numpy \<^verbatim>\<open>float64\<close>: \<^verbatim>\<open>a / b\<close> with \<^verbatim>\<open>b == 0\<close> raises
  \<^verbatim>\<open>ZeroDivisionError\<close> when both operands are Python numbers, and gives an
  infinity or NaN (with a warning only) as soon as one operand is a numpy scalar. The
  result of an operation is a numpy scalar as soon as one operand is. Literals of the
  source are Python numbers.
\<close>

datatype kind = PyFloat | NpFloat64

datatype pynum = PyNum (kind_of: kind) (val: f64)

text \<open>
  The exceptions that can leave a method. \<open>UnicodeEncodeError\<close> is the exception of a
  \<^verbatim>\<open>print\<close> whose message the output stream does not take.
\<close>

datatype exn = ZeroDivisionError | TypeError | UnicodeEncodeError

definition join :: "kind \<Rightarrow> kind \<Rightarrow> kind" where
  "join j k = (if j = NpFloat64 \<or> k = NpFloat64 then NpFloat64 else PyFloat)"

definition lit :: "real \<Rightarrow> pynum" where
  "lit c = PyNum PyFloat (Fin c)"

definition py_add :: "pynum \<Rightarrow> pynum \<Rightarrow> pynum" where
  "py_add a b = PyNum (join (kind_of a) (kind_of b)) (f64_add (val a) (val b))"

definition py_sub :: "pynum \<Rightarrow> pynum \<Rightarrow> pynum" where
  "py_sub a b = PyNum (join (kind_of a) (kind_of b)) (f64_sub (val a) (val b))"

definition py_mul :: "pynum \<Rightarrow> pynum \<Rightarrow> pynum" where
  "py_mul a b = PyNum (join (kind_of a) (kind_of b)) (f64_mul (val a) (val b))"

definition num_div :: "pynum \<Rightarrow> pynum \<Rightarrow> pynum" where
  "num_div a b = PyNum (join (kind_of a) (kind_of b)) (f64_div (val a) (val b))"

definition py_truediv :: "pynum \<Rightarrow> pynum \<Rightarrow> exn + pynum" where
  "py_truediv a b =
     (if kind_of a = PyFloat \<and> kind_of b = PyFloat \<and> val b = Fin 0
      then Inl ZeroDivisionError else Inr (num_div a b))"

definition py_pow :: "pynum \<Rightarrow> real \<Rightarrow> pynum" where
  "py_pow a e = PyNum (kind_of a) (f64_pow (val a) e)"

definition py_npow :: "pynum \<Rightarrow> nat \<Rightarrow> pynum" where
  "py_npow a k = PyNum (kind_of a) (f64_npow (val a) k)"

definition py_le :: "pynum \<Rightarrow> pynum \<Rightarrow> bool" where
  "py_le a b = f64_le (val a) (val b)"

definition py_lt :: "pynum \<Rightarrow> pynum \<Rightarrow> bool" where
  "py_lt a b = f64_lt (val a) (val b)"

definition py_eq :: "pynum \<Rightarrow> pynum \<Rightarrow> bool" where
  "py_eq a b = f64_eq (val a) (val b)"

section \<open>Colour space conversion and CCT estimation\<close>

text \<open>
  \<^verbatim>\<open>gamma_correct\<close>, the local function of \<^verbatim>\<open>rgb_to_xyz\<close>. Both divisors are
  nonzero literals, so neither division can raise.
\<close>

definition gamma_correct :: "pynum \<Rightarrow> pynum" where
  "gamma_correct v =
     (if py_le v (lit 0.04045) then num_div v (lit 12.92)
      else py_pow (num_div (py_add v (lit 0.055)) (lit 1.055)) 2.4)"

definition rgb_to_xyz :: "pynum \<times> pynum \<times> pynum \<Rightarrow> pynum \<times> pynum \<times> pynum" where
  "rgb_to_xyz rgb =
     (case rgb of (r0, g0, b0) \<Rightarrow>
        let r = gamma_correct r0; g = gamma_correct g0; b = gamma_correct b0;
            x = py_add (py_add (py_mul r (lit 0.4124564)) (py_mul g (lit 0.3575761)))
                       (py_mul b (lit 0.1804375));
            y = py_add (py_add (py_mul r (lit 0.2126729)) (py_mul g (lit 0.7151522)))
                       (py_mul b (lit 0.0721750));
            z = py_add (py_add (py_mul r (lit 0.0193339)) (py_mul g (lit 0.1191920)))
                       (py_mul b (lit 0.9503041))
        in (x, y, z))"

text \<open>
  \<^verbatim>\<open>xyz_to_cct\<close>: \<open>Inr None\<close> is the returned \<^verbatim>\<open>None\<close>, \<open>Inl e\<close> an exception
  that leaves the function.
\<close>

definition xyz_to_cct :: "pynum \<times> pynum \<times> pynum \<Rightarrow> exn + pynum option" where
  "xyz_to_cct xyz =
     (case xyz of (x, y, z) \<Rightarrow>
        if py_eq (py_add (py_add x y) z) (lit 0) then Inr None
        else
          (case py_truediv x (py_add (py_add x y) z) of
             Inl e \<Rightarrow> Inl e
           | Inr x_chrom \<Rightarrow>
               (case py_truediv y (py_add (py_add x y) z) of
                  Inl e \<Rightarrow> Inl e
                | Inr y_chrom \<Rightarrow>
                    (case py_truediv (py_sub x_chrom (lit 0.3320)) (py_sub (lit 0.1858) y_chrom) of
                       Inl e \<Rightarrow> Inl e
                     | Inr n \<Rightarrow>
                         let cct =
                           py_add (py_add (py_add (py_mul (lit 449) (py_npow n 3))
                                                  (py_mul (lit 3525) (py_npow n 2)))
                                          (py_mul (lit 6823.3) n))
                                  (lit 5520.33)
                         in Inr (Some cct)))))"

section \<open>numpy arrays of the analyzer\<close>

text \<open>
  A decoded RGB image (\<^verbatim>\<open>np.array(img)\<close>, shape height x width x 3, dtype uint8) is a
  list of rows of pixels; \<^verbatim>\<open>reshape(-1, 3)\<close> is \<open>concat\<close>. The float64 arrays
  of shape (3,) are triples. numpy arithmetic is elementwise and, in numpy's default
  error state, never raises: a division by zero gives an infinity or NaN and a warning.
\<close>

type_synonym pixel = "8 word \<times> 8 word \<times> 8 word"
type_synonym image = "pixel list list"
type_synonym rgb_array = "f64 \<times> f64 \<times> f64"

definition red :: "pixel \<Rightarrow> real" where
  "red p = (case p of (r, g, b) \<Rightarrow> real (unat r))"

definition green :: "pixel \<Rightarrow> real" where
  "green p = (case p of (r, g, b) \<Rightarrow> real (unat g))"

definition blue :: "pixel \<Rightarrow> real" where
  "blue p = (case p of (r, g, b) \<Rightarrow> real (unat b))"

text \<open>\<^verbatim>\<open>np.mean\<close> of a column; the mean of an empty slice is NaN.\<close>

definition np_mean :: "real list \<Rightarrow> f64" where
  "np_mean xs = (if xs = [] then NaN else Fin (sum_list xs / real (length xs)))"

definition f64_min :: "f64 \<Rightarrow> f64 \<Rightarrow> f64" where
  "f64_min a b = (if a = NaN \<or> b = NaN then NaN else if f64_lt b a then b else a)"

definition np_min :: "rgb_array \<Rightarrow> f64" where
  "np_min a = (case a of (r, g, b) \<Rightarrow> f64_min (f64_min r g) b)"

definition np_clip :: "f64 \<Rightarrow> f64 \<Rightarrow> f64 \<Rightarrow> f64" where
  "np_clip v lo hi = (if v = NaN then NaN else if f64_lt v lo then lo else if f64_lt hi v then hi else v)"

definition arr_map :: "(f64 \<Rightarrow> f64) \<Rightarrow> rgb_array \<Rightarrow> rgb_array" where
  "arr_map f a = (case a of (r, g, b) \<Rightarrow> (f r, f g, f b))"

definition arr_mul :: "rgb_array \<Rightarrow> rgb_array \<Rightarrow> rgb_array" where
  "arr_mul a c =
     (case a of (r, g, b) \<Rightarrow> case c of (fr, fg, fb) \<Rightarrow> (f64_mul r fr, f64_mul g fg, f64_mul b fb))"

text \<open>\<^verbatim>\<open>tuple(array)\<close>: three numpy float64 scalars.\<close>

definition tuple_of :: "rgb_array \<Rightarrow> pynum \<times> pynum \<times> pynum" where
  "tuple_of a = (case a of (r, g, b) \<Rightarrow> (PyNum NpFloat64 r, PyNum NpFloat64 g, PyNum NpFloat64 b))"

section \<open>The analyzer object and the files it reads\<close>

record analyzer =
  image_path :: "string option"
  image_array :: "image option"
  white_reference_path :: "string option"
  white_reference_rgb :: "rgb_array option"
  white_balance_factors :: "rgb_array option"
  avg_rgb :: "rgb_array option"
  corrected_rgb :: "rgb_array option"
  color_temperature :: "pynum option"

text \<open>\<^verbatim>\<open>__init__\<close>: every field is \<^verbatim>\<open>None\<close>.\<close>

definition init :: analyzer where
  "init = \<lparr> image_path = None, image_array = None, white_reference_path = None,
            white_reference_rgb = None, white_balance_factors = None, avg_rgb = None,
            corrected_rgb = None, color_temperature = None \<rparr>"

text \<open>
  The library calls are parameters. \<open>path_exists\<close> is \<^verbatim>\<open>os.path.exists\<close>,
  \<open>file_extension\<close> is \<^verbatim>\<open>os.path.splitext(path)[1].lower()\<close>, and \<open>open_image\<close>
  is what PIL makes of the file: \<open>Unreadable\<close> when \<^verbatim>\<open>Image.open\<close> or
  \<^verbatim>\<open>convert('RGB')\<close> raises, \<open>Truncated\<close> when the header opens in mode RGB and the
  pixel data fails to decode in \<^verbatim>\<open>np.array(img)\<close>, \<open>Pixels\<close> otherwise.
  \<open>print_ok l p\<close> says that the \<^verbatim>\<open>print\<close> statement at line \<open>l\<close> of the source
  returns normally in a call on the path \<open>p\<close> (the empty string where the method takes
  no path); otherwise it raises. The numbers a message shows are ASCII, so whether a
  message can be written depends on its fixed text and on the path only.
\<close>

datatype decoded = Unreadable | Truncated | Pixels image

record files =
  path_exists :: "string \<Rightarrow> bool"
  file_extension :: "string \<Rightarrow> string"
  open_image :: "string \<Rightarrow> decoded"
  print_ok :: "nat \<Rightarrow> string \<Rightarrow> bool"

definition SUPPORTED_FORMATS :: "string set" where
  "SUPPORTED_FORMATS = {''.png'', ''.jpg'', ''.jpeg'', ''.bmp'', ''.tiff'', ''.tif'', ''.webp''}"

text \<open>
  Lines 60 to 64 of \<^verbatim>\<open>load_white_reference\<close>: the reciprocals of the reference
  channels, divided by the least of them.
\<close>

definition normalized_factors :: "rgb_array \<Rightarrow> rgb_array" where
  "normalized_factors reference_rgb =
     (let factors = arr_map (\<lambda>c. f64_div (Fin 1.0) c) reference_rgb;
          min_factor = np_min factors
      in arr_map (\<lambda>c. f64_div c min_factor) factors)"

text \<open>
  The \<^verbatim>\<open>except Exception\<close> clause of \<^verbatim>\<open>load_white_reference\<close> (its \<^verbatim>\<open>print\<close> is
  at line 75) and of \<^verbatim>\<open>load_image\<close> (line 138): it prints the error and returns
  \<^verbatim>\<open>False\<close>, in the state the \<^verbatim>\<open>try\<close> block was left in. An exception of that
  \<^verbatim>\<open>print\<close> leaves the method.
\<close>

definition except_clause :: "files \<Rightarrow> nat \<Rightarrow> string \<Rightarrow> analyzer \<Rightarrow> (exn + bool) \<times> analyzer" where
  "except_clause fs line path s =
     (if print_ok fs line path then (Inr False, s) else (Inl UnicodeEncodeError, s))"

text \<open>
  \<^verbatim>\<open>load_white_reference\<close>. The whole body is inside the \<^verbatim>\<open>try\<close>: the messages
  of lines 37 and 43, the decoding of the file, the three assignments, and the three
  messages of lines 68 to 70, which are printed after the assignments.
\<close>

definition load_white_reference ::
  "files \<Rightarrow> analyzer \<Rightarrow> string \<Rightarrow> (exn + bool) \<times> analyzer" where
  "load_white_reference fs s path =
     (if \<not> path_exists fs path
      then (if print_ok fs 37 path then (Inr False, s) else except_clause fs 75 path s)
      else if file_extension fs path \<notin> SUPPORTED_FORMATS
      then (if print_ok fs 43 path then (Inr False, s) else except_clause fs 75 path s)
      else
        (case open_image fs path of
           Pixels white_array \<Rightarrow>
             let ps = concat white_array;
                 rgb = arr_map (\<lambda>c. f64_div c (Fin 255.0))
                         (np_mean (map red ps), np_mean (map green ps), np_mean (map blue ps));
                 s1 = s\<lparr> white_reference_rgb := Some rgb,
                         white_balance_factors := Some (normalized_factors rgb),
                         white_reference_path := Some path \<rparr>
             in if print_ok fs 68 path \<and> print_ok fs 69 path \<and> print_ok fs 70 path
                then (Inr True, s1)
                else except_clause fs 75 path s1
         | _ \<Rightarrow> except_clause fs 75 path s))"

text \<open>
  \<^verbatim>\<open>load_image\<close> assigns \<^verbatim>\<open>self.image_path\<close> before \<^verbatim>\<open>np.array(img)\<close> decodes
  the pixels, so a truncated file leaves the new path behind. The messages of lines
  131 to 133 are printed after both assignments.
\<close>

definition load_image :: "files \<Rightarrow> analyzer \<Rightarrow> string \<Rightarrow> (exn + bool) \<times> analyzer" where
  "load_image fs s path =
     (if \<not> path_exists fs path
      then (if print_ok fs 111 path then (Inr False, s) else except_clause fs 138 path s)
      else if file_extension fs path \<notin> SUPPORTED_FORMATS
      then (if print_ok fs 117 path \<and> print_ok fs 118 path then (Inr False, s)
            else except_clause fs 138 path s)
      else
        (case open_image fs path of
           Unreadable \<Rightarrow> except_clause fs 138 path s
         | Truncated \<Rightarrow> except_clause fs 138 path (s\<lparr> image_path := Some path \<rparr>)
         | Pixels img \<Rightarrow>
             let s1 = s\<lparr> image_path := Some path, image_array := Some img \<rparr>
             in if print_ok fs 131 path \<and> print_ok fs 132 path \<and> print_ok fs 133 path
                then (Inr True, s1)
                else except_clause fs 138 path s1))"

text \<open>
  The methods below have no \<^verbatim>\<open>try\<close>: an exception of one of their \<^verbatim>\<open>print\<close>
  statements leaves the method.
\<close>

definition apply_white_balance :: "files \<Rightarrow> analyzer \<Rightarrow> rgb_array \<Rightarrow> exn + rgb_array" where
  "apply_white_balance fs s rgb_values =
     (case white_balance_factors s of
        None \<Rightarrow> (if print_ok fs 150 [] then Inr rgb_values else Inl UnicodeEncodeError)
      | Some factors \<Rightarrow>
          let corrected = arr_mul rgb_values factors
          in Inr (arr_map (\<lambda>c. np_clip c (Fin 0.0) (Fin 1.0)) corrected))"

definition calculate_average_rgb ::
  "files \<Rightarrow> analyzer \<Rightarrow> bool \<Rightarrow> (exn + (pynum \<times> pynum \<times> pynum) option) \<times> analyzer" where
  "calculate_average_rgb fs s apply_flag =
     (case image_array s of
        None \<Rightarrow> (if print_ok fs 170 [] then (Inr None, s) else (Inl UnicodeEncodeError, s))
      | Some img \<Rightarrow>
          let rgb_normalized = map (\<lambda>p. (red p / 255.0, green p / 255.0, blue p / 255.0)) (concat img);
              avg = (np_mean (map fst rgb_normalized),
                     np_mean (map (fst \<circ> snd) rgb_normalized),
                     np_mean (map (snd \<circ> snd) rgb_normalized));
              s1 = s\<lparr> avg_rgb := Some avg \<rparr>
          in if apply_flag \<and> white_balance_factors s1 \<noteq> None
             then (case apply_white_balance fs s1 avg of
                     Inl e \<Rightarrow> (Inl e, s1)
                   | Inr corrected \<Rightarrow>
                       (Inr (Some (tuple_of corrected)), s1\<lparr> corrected_rgb := Some corrected \<rparr>))
             else (Inr (Some (tuple_of avg)), s1\<lparr> corrected_rgb := Some avg \<rparr>))"


section \<open>Classification of a temperature\<close>

text \<open>
  The labels are Python strings; a character beyond ASCII is written by its code
  point (\<open>0xFC\<close> u-umlaut, \<open>0xF6\<close> o-umlaut, \<open>0xDF\<close> sharp s).
\<close>

definition get_physical_light_description :: "pynum \<Rightarrow> string" where
  "get_physical_light_description temp_kelvin =
     (if py_lt temp_kelvin (lit 2000) then ''Sehr warm - Kerzenlicht, Petroleum-/Gaslampe''
      else if py_lt temp_kelvin (lit 3000) then ''Warm - Gl'' @ CHR 0xFC # ''hlampe, warmes LED-Licht''
      else if py_lt temp_kelvin (lit 4000)
        then ''Warmwei'' @ CHR 0xDF # '' - Halogenlampe, warmwei'' @ CHR 0xDF # ''es LED''
      else if py_lt temp_kelvin (lit 5000)
        then ''Neutral - Leuchtstoffr'' @ CHR 0xF6 # ''hre, neutrales LED''
      else if py_lt temp_kelvin (lit 6000)
        then ''Kaltwei'' @ CHR 0xDF # '' - Tageslicht bew'' @ CHR 0xF6 # ''lkt, kaltwei'' @ CHR 0xDF # ''es LED''
      else if py_lt temp_kelvin (lit 7000) then ''Tageslicht - direktes Sonnenlicht mittags''
      else if py_lt temp_kelvin (lit 8000) then ''Kalt - Schatten im Freien, Nordfenster''
      else ''Sehr kalt - klarer blauer Himmel, Hochgebirge'')"


text \<open>The returned settings are Python integers.\<close>

definition calculate_inverse_wb_setting :: "pynum \<Rightarrow> int" where
  "calculate_inverse_wb_setting measured_temp =
     (if py_le measured_temp (lit 2000) then 9000
      else if py_le measured_temp (lit 3000) then 7000
      else if py_le measured_temp (lit 4000) then 5500
      else if py_le measured_temp (lit 5500) then 4000
      else if py_le measured_temp (lit 7000) then 3200
      else if py_le measured_temp (lit 8500) then 2800
      else 2300)"

section \<open>The result dictionary and the two workflows\<close>



record wb_info =
  reference_path :: "string option"
  reference_rgb :: rgb_array
  correction_factors :: rgb_array







section \<open>Example inputs\<close>

text \<open>
  A reference image of one cyan pixel: its red channel averages to zero. Every message
  can be printed. \<open>cyan_calibrated\<close> is a fresh analyzer after
  \<^verbatim>\<open>load_white_reference("cyan.png")\<close>.
\<close>

definition cyan_files :: files where
  "cyan_files = \<lparr> path_exists = (\<lambda>p. True), file_extension = (\<lambda>p. ''.png''),
                    open_image = (\<lambda>p. Pixels [[(0, 255, 255)]]),
                    print_ok = (\<lambda>l p. True) \<rparr>"

definition cyan_calibrated :: analyzer where
  "cyan_calibrated = snd (load_white_reference cyan_files init ''cyan.png'')"

text \<open>
  A folder with a warm reference (one pixel \<open>(255, 255, 128)\<close>), a pure white
  reference and a black image; every other path is missing, and every message can be
  printed. \<open>calibrated\<close> is a fresh analyzer after
  \<^verbatim>\<open>load_white_reference("warm.png")\<close>, \<open>white_calibrated\<close> one after
  \<^verbatim>\<open>load_white_reference("white.png")\<close>.
\<close>

definition studio_files :: files where
  "studio_files =
     \<lparr> path_exists = (\<lambda>p. p = ''warm.png'' \<or> p = ''white.png'' \<or> p = ''black.png''),
       file_extension = (\<lambda>p. ''.png''),
       open_image = (\<lambda>p. if p = ''warm.png'' then Pixels [[(255, 255, 128)]]
                          else if p = ''white.png'' then Pixels [[(255, 255, 255)]]
                          else if p = ''black.png'' then Pixels [[(0, 0, 0)]]
                          else Unreadable),
       print_ok = (\<lambda>l p. True) \<rparr>"


definition white_calibrated :: analyzer where
  "white_calibrated = snd (load_white_reference studio_files init ''white.png'')"


section \<open>Vocabulary of the properties\<close>



text \<open>
  The seven boundaries of \<^verbatim>\<open>get_physical_light_description\<close> and its eight labels,
  from the warmest band to the coldest.
\<close>

definition physical_light_labels :: "string list" where
  "physical_light_labels =
     [''Sehr warm - Kerzenlicht, Petroleum-/Gaslampe'',
      ''Warm - Gl'' @ CHR 0xFC # ''hlampe, warmes LED-Licht'',
      ''Warmwei'' @ CHR 0xDF # '' - Halogenlampe, warmwei'' @ CHR 0xDF # ''es LED'',
      ''Neutral - Leuchtstoffr'' @ CHR 0xF6 # ''hre, neutrales LED'',
      ''Kaltwei'' @ CHR 0xDF # '' - Tageslicht bew'' @ CHR 0xF6 # ''lkt, kaltwei'' @ CHR 0xDF # ''es LED'',
      ''Tageslicht - direktes Sonnenlicht mittags'',
      ''Kalt - Schatten im Freien, Nordfenster'',
      ''Sehr kalt - klarer blauer Himmel, Hochgebirge'']"

section \<open>Properties of the CCT estimator\<close>

lemmas py_ops = py_add_def py_sub_def py_mul_def num_div_def py_truediv_def py_pow_def
  py_npow_def py_le_def py_lt_def py_eq_def lit_def join_def

lemmas arr_ops = arr_map_def arr_mul_def np_min_def f64_min_def np_clip_def np_mean_def

lemma xyz_to_cct_none_iff:
  "(xyz_to_cct (PyNum kx (Fin X), PyNum ky (Fin Y), PyNum kz (Fin Z)) = Inr None) = (X + Y + Z = 0)"
  by (auto simp: xyz_to_cct_def py_ops Let_def split: sum.splits)

lemma xyz_to_cct_value:
  assumes "X + Y + Z \<noteq> 0" and "Y / (X + Y + Z) \<noteq> 0.1858"
  shows "xyz_to_cct (PyNum kx (Fin X), PyNum ky (Fin Y), PyNum kz (Fin Z)) =
     Inr (Some (PyNum (join kx (join ky kz))
       (Fin (449 * ((X / (X + Y + Z) - 0.3320) / (0.1858 - Y / (X + Y + Z))) ^ 3
           + 3525 * ((X / (X + Y + Z) - 0.3320) / (0.1858 - Y / (X + Y + Z))) ^ 2
           + 6823.3 * ((X / (X + Y + Z) - 0.3320) / (0.1858 - Y / (X + Y + Z)))
           + 5520.33))))"
  using assms
  by (simp add: xyz_to_cct_def py_ops Let_def f64_sub_def numeral_3_eq_3 numeral_2_eq_2)

text \<open>
  C1. On finite tristimulus values \<open>X\<close>, \<open>Y\<close>, \<open>Z\<close> (Python floats or numpy scalars),
  \<^verbatim>\<open>xyz_to_cct\<close> returns \<^verbatim>\<open>None\<close> exactly when \<open>X + Y + Z = 0\<close>. When the sum is
  not zero and the chromaticity \<open>y\<close> is not 0.1858, it returns McCamy's cubic
  \<open>449 n^3 + 3525 n^2 + 6823.3 n + 5520.33\<close> at \<open>n = (x - 0.3320) / (0.1858 - y)\<close>,
  where \<open>x = X / (X + Y + Z)\<close> and \<open>y = Y / (X + Y + Z)\<close>.
\<close>

theorem xyz_to_cct_mccamy:
  assumes "S = X + Y + Z" and "x = X / S" and "y = Y / S"
    and "n = (x - 0.3320) / (0.1858 - y)"
  shows "(xyz_to_cct (PyNum kx (Fin X), PyNum ky (Fin Y), PyNum kz (Fin Z)) = Inr None \<longleftrightarrow> S = 0)
       \<and> (S \<noteq> 0 \<and> y \<noteq> 0.1858 \<longrightarrow>
            xyz_to_cct (PyNum kx (Fin X), PyNum ky (Fin Y), PyNum kz (Fin Z)) =
              Inr (Some (PyNum (join kx (join ky kz))
                (Fin (449 * n ^ 3 + 3525 * n ^ 2 + 6823.3 * n + 5520.33)))))"
  unfolding assms using xyz_to_cct_none_iff xyz_to_cct_value by blast

text \<open>
  C1, at the equal-energy point \<open>X = Y = Z = 1\<close>: \<open>S = 3\<close>, \<open>x = y = 1/3\<close>,
  \<open>n = - 20/2213\<close> and the temperature is about 5459 K.
\<close>

theorem xyz_to_cct_mccamy_witness:
  "((3::real) = 1 + 1 + 1) \<and> ((1/3::real) \<noteq> 0.1858)
   \<and> ((- 20/2213::real) = (1/3 - 0.3320) / (0.1858 - 1/3))
   \<and> xyz_to_cct (PyNum PyFloat (Fin 1), PyNum PyFloat (Fin 1), PyNum PyFloat (Fin 1)) =
        Inr (Some (PyNum PyFloat
          (Fin (449 * (- 20/2213) ^ 3 + 3525 * (- 20/2213) ^ 2 + 6823.3 * (- 20/2213) + 5520.33))))"
  using xyz_to_cct_mccamy [of 3 1 1 1 "1/3" "1/3" "- 20/2213" PyFloat PyFloat PyFloat]
  by (simp add: join_def)

text \<open>
  C4. At the Python floats \<open>(0.1858, 0.1858, 0.6284)\<close> the sum is 1, the chromaticity
  \<open>y\<close> is exactly 0.1858, and the division by \<open>0.1858 - y\<close> raises
  \<^verbatim>\<open>ZeroDivisionError\<close>: the function returns no value there.
\<close>

theorem xyz_to_cct_singular_raises:
  "xyz_to_cct (lit 0.1858, lit 0.1858, lit 0.6284) = Inl ZeroDivisionError"
  by (simp add: xyz_to_cct_def py_ops f64_sub_def)

text \<open>
  On numpy scalars, which \<^verbatim>\<open>analyze_color_temperature\<close> passes, no division raises;
  at the same point the result is NaN.
\<close>

lemma xyz_to_cct_numpy_never_raises:
  "kind_of x = NpFloat64 \<or> kind_of y = NpFloat64 \<or> kind_of z = NpFloat64 \<Longrightarrow>
   xyz_to_cct (x, y, z) \<noteq> Inl e"
  by (auto simp add: xyz_to_cct_def py_ops Let_def split: sum.splits if_splits)

lemma xyz_to_cct_numpy_singular:
  "xyz_to_cct (PyNum NpFloat64 (Fin 0.1858), PyNum NpFloat64 (Fin 0.1858), PyNum NpFloat64 (Fin 0.6284))
     = Inr (Some (PyNum NpFloat64 NaN))"
  by (simp add: xyz_to_cct_def py_ops f64_sub_def signed_inf_def numeral_3_eq_3 numeral_2_eq_2)

lemma gamma_correct_one: "gamma_correct (PyNum k (Fin 1)) = PyNum k (Fin 1)"
  by (cases k) (simp_all add: gamma_correct_def py_ops f64_le_def)

lemma white_cct_value:
  "xyz_to_cct (rgb_to_xyz (PyNum kr (Fin 1), PyNum kg (Fin 1), PyNum kb (Fin 1))) =
     Inr (Some (PyNum (join kr (join kg kb))
       (Fin (6705251656234256891554924697981575863 / 1031027980704244162086592591891100))))"
  apply (simp add: rgb_to_xyz_def gamma_correct_one Let_def)
  apply (cases kr; cases kg; cases kb)
         apply (simp_all add: xyz_to_cct_def py_ops f64_sub_def numeral_3_eq_3 numeral_2_eq_2)
  done

text \<open>
  C5. For the triple \<open>(1.0, 1.0, 1.0)\<close>, \<^verbatim>\<open>rgb_to_xyz\<close> followed by \<^verbatim>\<open>xyz_to_cct\<close>
  returns a temperature \<open>t\<close> (about 6503.5 K) with \<open>|t - 6500| \<le> 100\<close>.
\<close>

theorem white_point_cct:
  "\<exists>t. xyz_to_cct (rgb_to_xyz (PyNum kr (Fin 1), PyNum kg (Fin 1), PyNum kb (Fin 1))) =
          Inr (Some (PyNum (join kr (join kg kb)) (Fin t)))
       \<and> t = 6705251656234256891554924697981575863 / 1031027980704244162086592591891100
       \<and> \<bar>t - 6500\<bar> \<le> 100"
  by (rule exI [of _ "6705251656234256891554924697981575863 / 1031027980704244162086592591891100"])
     (simp add: white_cct_value)

section \<open>Properties of the white balance\<close>

text \<open>
  C2. A reference image of one cyan pixel averages to \<open>(0, 1, 1)\<close>. The reciprocal of
  the zero channel is \<^verbatim>\<open>inf\<close> (numpy warns and goes on), the least factor is 1, and
  \<^verbatim>\<open>load_white_reference\<close> returns \<^verbatim>\<open>True\<close> with the factors \<open>(inf, 1, 1)\<close>
  stored.
\<close>

theorem load_white_reference_zero_channel:
  "load_white_reference cyan_files init ''cyan.png'' =
     (Inr True, init\<lparr> white_reference_rgb := Some (Fin 0, Fin 1, Fin 1),
                      white_balance_factors := Some (PInf, Fin 1, Fin 1),
                      white_reference_path := Some ''cyan.png'' \<rparr>)"
  by (simp add: load_white_reference_def cyan_files_def SUPPORTED_FORMATS_def
      normalized_factors_def arr_ops red_def green_def blue_def signed_inf_def Let_def)

lemma cyan_calibrated_eq:
  "cyan_calibrated = init\<lparr> white_reference_rgb := Some (Fin 0, Fin 1, Fin 1),
                          white_balance_factors := Some (PInf, Fin 1, Fin 1),
                          white_reference_path := Some ''cyan.png'' \<rparr>"
  by (simp add: cyan_calibrated_def load_white_reference_def cyan_files_def SUPPORTED_FORMATS_def
      normalized_factors_def arr_ops red_def green_def blue_def signed_inf_def Let_def)

lemma white_calibrated_eq:
  "white_calibrated = init\<lparr> white_reference_rgb := Some (Fin 1, Fin 1, Fin 1),
                           white_balance_factors := Some (Fin 1, Fin 1, Fin 1),
                           white_reference_path := Some ''white.png'' \<rparr>"
  by (simp add: white_calibrated_def load_white_reference_def studio_files_def
      SUPPORTED_FORMATS_def normalized_factors_def arr_ops red_def green_def blue_def Let_def)

lemma normalized_factors_finite:
  assumes "0 < r" "0 < g" "0 < b"
  shows "normalized_factors (Fin r, Fin g, Fin b) =
     (Fin ((1 / r) / min (min (1 / r) (1 / g)) (1 / b)),
      Fin ((1 / g) / min (min (1 / r) (1 / g)) (1 / b)),
      Fin ((1 / b) / min (min (1 / r) (1 / g)) (1 / b)))"
  using assms by (simp add: normalized_factors_def arr_ops Let_def min_def)

lemma quot_ge_one: "0 < m \<Longrightarrow> m \<le> x \<Longrightarrow> 1 \<le> x / (m::real)"
  by (simp add: le_divide_eq)

lemma min3_quot:
  assumes "0 < x" "0 < y" "0 < z"
  shows "min (min (x / min (min x y) z) (y / min (min x y) z)) (z / min (min x y) z) = (1::real)"
  using assms by (auto simp: min_def le_divide_eq divide_le_eq)

lemma np_min_finite: "np_min (Fin x, Fin y, Fin z) = Fin (min (min x y) z)"
  by (auto simp: np_min_def f64_min_def min_def)

text \<open>
  C6. For a reference with three positive channels \<open>r\<close>, \<open>g\<close>, \<open>b\<close>, the factors of
  lines 60 to 64 are the reciprocals divided by the least reciprocal; each factor is at
  least 1, their minimum is exactly 1, and dividing them by their minimum again gives
  the same factors.
\<close>

theorem normalized_factors_min_one:
  assumes "0 < r" "0 < g" "0 < b"
  shows "\<exists>fr fg fb. normalized_factors (Fin r, Fin g, Fin b) = (Fin fr, Fin fg, Fin fb)
         \<and> fr = (1 / r) / min (min (1 / r) (1 / g)) (1 / b)
         \<and> fg = (1 / g) / min (min (1 / r) (1 / g)) (1 / b)
         \<and> fb = (1 / b) / min (min (1 / r) (1 / g)) (1 / b)
         \<and> 1 \<le> fr \<and> 1 \<le> fg \<and> 1 \<le> fb
         \<and> np_min (Fin fr, Fin fg, Fin fb) = Fin 1
         \<and> arr_map (\<lambda>c. f64_div c (np_min (Fin fr, Fin fg, Fin fb))) (Fin fr, Fin fg, Fin fb)
             = (Fin fr, Fin fg, Fin fb)"
proof -
  define m where "m = min (min (1 / r) (1 / g)) (1 / b)"
  define fr where "fr = (1 / r) / m"
  define fg where "fg = (1 / g) / m"
  define fb where "fb = (1 / b) / m"
  have m: "0 < m" using assms by (simp add: m_def)
  have ge: "1 \<le> fr" "1 \<le> fg" "1 \<le> fb"
    unfolding fr_def fg_def fb_def m_def
    by (rule quot_ge_one[OF m[unfolded m_def]], simp add: min_le_iff_disj)+
  have "min (min fr fg) fb = 1"
    unfolding fr_def fg_def fb_def m_def using assms by (intro min3_quot) simp_all
  then have mn: "np_min (Fin fr, Fin fg, Fin fb) = Fin 1"
    by (simp add: np_min_finite)
  have nf: "normalized_factors (Fin r, Fin g, Fin b) = (Fin fr, Fin fg, Fin fb)"
    unfolding fr_def fg_def fb_def m_def by (rule normalized_factors_finite[OF assms])
  have id: "arr_map (\<lambda>c. f64_div c (np_min (Fin fr, Fin fg, Fin fb))) (Fin fr, Fin fg, Fin fb)
             = (Fin fr, Fin fg, Fin fb)"
    by (simp add: mn arr_map_def)
  show ?thesis
    using nf ge mn id unfolding fr_def fg_def fb_def m_def by blast
qed

text \<open>C6, at the reference \<open>(1/2, 1, 1/4)\<close>: the factors are \<open>(2, 1, 4)\<close>.\<close>

theorem normalized_factors_min_one_witness:
  "(0::real) < 1/2 \<and> (0::real) < 1 \<and> (0::real) < 1/4
   \<and> (\<exists>fr fg fb. normalized_factors (Fin (1/2), Fin 1, Fin (1/4)) = (Fin fr, Fin fg, Fin fb)
         \<and> fr = 2 \<and> fg = 1 \<and> fb = 4
         \<and> 1 \<le> fr \<and> 1 \<le> fg \<and> 1 \<le> fb
         \<and> np_min (Fin fr, Fin fg, Fin fb) = Fin 1
         \<and> arr_map (\<lambda>c. f64_div c (np_min (Fin fr, Fin fg, Fin fb))) (Fin fr, Fin fg, Fin fb)
             = (Fin fr, Fin fg, Fin fb))"
  using normalized_factors_min_one [of "1/2" 1 "1/4"] by (simp add: arr_map_def)

text \<open>
  With finite factors \<open>(fr, fg, fb)\<close> loaded, \<^verbatim>\<open>apply_white_balance\<close> maps a finite
  triple \<open>(r, g, b)\<close> to the products clipped to \<open>[0, 1]\<close>, channel by channel.
\<close>

lemma apply_white_balance_finite:
  "\<exists>x y z. apply_white_balance fs (s\<lparr> white_balance_factors := Some (Fin fr, Fin fg, Fin fb) \<rparr>)
              (Fin r, Fin g, Fin b) = Inr (Fin x, Fin y, Fin z)
     \<and> x = min 1 (max 0 (r * fr)) \<and> y = min 1 (max 0 (g * fg)) \<and> z = min 1 (max 0 (b * fb))
     \<and> 0 \<le> x \<and> x \<le> 1 \<and> 0 \<le> y \<and> y \<le> 1 \<and> 0 \<le> z \<and> z \<le> 1"
  by (simp add: apply_white_balance_def arr_ops Let_def max_def min_def)

text \<open>
  C7. The factors that \<^verbatim>\<open>load_white_reference\<close> stores for the cyan reference are
  \<open>(inf, 1, 1)\<close>. With them \<^verbatim>\<open>apply_white_balance\<close> maps \<open>(0, 1, 1)\<close> to
  \<open>(nan, 1, 1)\<close>: \<^verbatim>\<open>0.0 * inf\<close> is NaN and \<^verbatim>\<open>np.clip\<close> returns NaN for NaN. The
  same happens inside \<^verbatim>\<open>calculate_average_rgb\<close> when the cyan image itself is then
  loaded and averaged. The red component is not in \<open>[0, 1]\<close>: no comparison with NaN
  holds.
\<close>

theorem apply_white_balance_returns_nan:
  "white_balance_factors cyan_calibrated = Some (PInf, Fin 1, Fin 1)
   \<and> apply_white_balance cyan_files cyan_calibrated (Fin 0, Fin 1, Fin 1)
        = Inr (NaN, Fin 1, Fin 1)
   \<and> load_image cyan_files cyan_calibrated ''cyan.png''
        = (Inr True, cyan_calibrated\<lparr> image_path := Some ''cyan.png'',
                                        image_array := Some [[(0, 255, 255)]] \<rparr>)
   \<and> calculate_average_rgb cyan_files
        (cyan_calibrated\<lparr> image_path := Some ''cyan.png'',
                           image_array := Some [[(0, 255, 255)]] \<rparr>) True
        = (Inr (Some (PyNum NpFloat64 NaN, PyNum NpFloat64 (Fin 1), PyNum NpFloat64 (Fin 1))),
           cyan_calibrated\<lparr> image_path := Some ''cyan.png'',
                             image_array := Some [[(0, 255, 255)]],
                             avg_rgb := Some (Fin 0, Fin 1, Fin 1),
                             corrected_rgb := Some (NaN, Fin 1, Fin 1) \<rparr>)
   \<and> \<not> f64_le (Fin 0) NaN \<and> \<not> f64_le NaN (Fin 1)"
  by (simp add: cyan_calibrated_eq apply_white_balance_def calculate_average_rgb_def
      load_image_def cyan_files_def SUPPORTED_FORMATS_def arr_ops red_def green_def blue_def
      tuple_of_def signed_inf_def Let_def init_def f64_le_def)

lemma np_clip_mono:
  assumes "0 \<le> v" and "f \<le> f'"
  shows "f64_le (np_clip (Fin (v * f)) (Fin 0) (Fin 1)) (np_clip (Fin (v * f')) (Fin 0) (Fin 1))"
proof -
  from assms have "v * f \<le> v * f'" by (rule mult_left_mono[rotated])
  then show ?thesis by (auto simp: np_clip_def f64_le_def)
qed

text \<open>
  Between two finite factor triples \<^verbatim>\<open>apply_white_balance\<close> is monotone in every
  channel.
\<close>

lemma apply_white_balance_finite_monotone:
  assumes "0 \<le> r" "0 \<le> g" "0 \<le> b" "fr \<le> fr'" "fg \<le> fg'" "fb \<le> fb'"
  shows "\<exists>x1 x2 x3 y1 y2 y3.
           apply_white_balance fs (s\<lparr> white_balance_factors := Some (Fin fr, Fin fg, Fin fb) \<rparr>)
             (Fin r, Fin g, Fin b) = Inr (x1, x2, x3)
         \<and> apply_white_balance fs (s\<lparr> white_balance_factors := Some (Fin fr', Fin fg', Fin fb') \<rparr>)
             (Fin r, Fin g, Fin b) = Inr (y1, y2, y3)
         \<and> f64_le x1 y1 \<and> f64_le x2 y2 \<and> f64_le x3 y3"
  using np_clip_mono[OF assms(1) assms(4)] np_clip_mono[OF assms(2) assms(5)]
    np_clip_mono[OF assms(3) assms(6)]
  by (simp add: apply_white_balance_def arr_map_def arr_mul_def Let_def)

text \<open>
  C8. An analyzer calibrated on the white reference holds the factors \<open>(1, 1, 1)\<close>, one
  calibrated on the cyan reference holds \<open>(inf, 1, 1)\<close>, and \<open>1 \<le> inf\<close>. For the input
  \<open>(0, 1, 1)\<close> the red output is 0 under the smaller factor and NaN under the larger
  one, and \<open>0 \<le> nan\<close> does not hold: the output has not stayed at or above 0.
\<close>

theorem apply_white_balance_not_monotone:
  "white_balance_factors white_calibrated = Some (Fin 1, Fin 1, Fin 1)
   \<and> white_balance_factors cyan_calibrated = Some (PInf, Fin 1, Fin 1)
   \<and> f64_le (Fin 1) PInf \<and> f64_le (Fin 1) (Fin 1)
   \<and> apply_white_balance studio_files white_calibrated (Fin 0, Fin 1, Fin 1)
        = Inr (Fin 0, Fin 1, Fin 1)
   \<and> apply_white_balance cyan_files cyan_calibrated (Fin 0, Fin 1, Fin 1)
        = Inr (NaN, Fin 1, Fin 1)
   \<and> \<not> f64_le (Fin 0) NaN"
  by (simp add: cyan_calibrated_eq white_calibrated_eq apply_white_balance_def arr_ops
      signed_inf_def Let_def init_def f64_le_def)

section \<open>Properties of the classifier\<close>

text \<open>
  C9. \<^verbatim>\<open>get_physical_light_description\<close> has eight pairwise different labels. A
  finite temperature \<open>t\<close> below 2000 gets the first, \<open>2000 \<le> t < 3000\<close> the second, and
  so on with the boundaries 3000, 4000, 5000, 6000, 7000 and 8000; \<open>t \<ge> 8000\<close> gets the
  last. Each boundary belongs to the band above it.
\<close>

theorem physical_light_bands:
  "distinct physical_light_labels \<and> length physical_light_labels = 8
   \<and> (t < 2000 \<longrightarrow> get_physical_light_description (PyNum k (Fin t)) = physical_light_labels ! 0)
   \<and> (2000 \<le> t \<and> t < 3000 \<longrightarrow> get_physical_light_description (PyNum k (Fin t)) = physical_light_labels ! 1)
   \<and> (3000 \<le> t \<and> t < 4000 \<longrightarrow> get_physical_light_description (PyNum k (Fin t)) = physical_light_labels ! 2)
   \<and> (4000 \<le> t \<and> t < 5000 \<longrightarrow> get_physical_light_description (PyNum k (Fin t)) = physical_light_labels ! 3)
   \<and> (5000 \<le> t \<and> t < 6000 \<longrightarrow> get_physical_light_description (PyNum k (Fin t)) = physical_light_labels ! 4)
   \<and> (6000 \<le> t \<and> t < 7000 \<longrightarrow> get_physical_light_description (PyNum k (Fin t)) = physical_light_labels ! 5)
   \<and> (7000 \<le> t \<and> t < 8000 \<longrightarrow> get_physical_light_description (PyNum k (Fin t)) = physical_light_labels ! 6)
   \<and> (8000 \<le> t \<longrightarrow> get_physical_light_description (PyNum k (Fin t)) = physical_light_labels ! 7)"
  by (simp add: physical_light_labels_def get_physical_light_description_def py_lt_def lit_def)

text \<open>C9, on both sides of each of the seven boundaries.\<close>

theorem physical_light_bands_witness:
  "get_physical_light_description (lit 1999.5) = physical_light_labels ! 0
   \<and> get_physical_light_description (lit 2000) = physical_light_labels ! 1
   \<and> get_physical_light_description (lit 2999.5) = physical_light_labels ! 1
   \<and> get_physical_light_description (lit 3000) = physical_light_labels ! 2
   \<and> get_physical_light_description (lit 3999.5) = physical_light_labels ! 2
   \<and> get_physical_light_description (lit 4000) = physical_light_labels ! 3
   \<and> get_physical_light_description (lit 4999.5) = physical_light_labels ! 3
   \<and> get_physical_light_description (lit 5000) = physical_light_labels ! 4
   \<and> get_physical_light_description (lit 5999.5) = physical_light_labels ! 4
   \<and> get_physical_light_description (lit 6000) = physical_light_labels ! 5
   \<and> get_physical_light_description (lit 6999.5) = physical_light_labels ! 5
   \<and> get_physical_light_description (lit 7000) = physical_light_labels ! 6
   \<and> get_physical_light_description (lit 7999.5) = physical_light_labels ! 6
   \<and> get_physical_light_description (lit 8000) = physical_light_labels ! 7"
  using physical_light_bands[of "1999.5" PyFloat] physical_light_bands[of 2000 PyFloat]
    physical_light_bands[of "2999.5" PyFloat] physical_light_bands[of 3000 PyFloat]
    physical_light_bands[of "3999.5" PyFloat] physical_light_bands[of 4000 PyFloat]
    physical_light_bands[of "4999.5" PyFloat] physical_light_bands[of 5000 PyFloat]
    physical_light_bands[of "5999.5" PyFloat] physical_light_bands[of 6000 PyFloat]
    physical_light_bands[of "6999.5" PyFloat] physical_light_bands[of 7000 PyFloat]
    physical_light_bands[of "7999.5" PyFloat] physical_light_bands[of 8000 PyFloat]
  by (simp add: lit_def)

lemma inverse_wb_bands:
  "(t \<le> 2000 \<longrightarrow> calculate_inverse_wb_setting (PyNum k (Fin t)) = 9000)
   \<and> (2000 < t \<and> t \<le> 3000 \<longrightarrow> calculate_inverse_wb_setting (PyNum k (Fin t)) = 7000)
   \<and> (3000 < t \<and> t \<le> 4000 \<longrightarrow> calculate_inverse_wb_setting (PyNum k (Fin t)) = 5500)
   \<and> (4000 < t \<and> t \<le> 5500 \<longrightarrow> calculate_inverse_wb_setting (PyNum k (Fin t)) = 4000)
   \<and> (5500 < t \<and> t \<le> 7000 \<longrightarrow> calculate_inverse_wb_setting (PyNum k (Fin t)) = 3200)
   \<and> (7000 < t \<and> t \<le> 8500 \<longrightarrow> calculate_inverse_wb_setting (PyNum k (Fin t)) = 2800)
   \<and> (8500 < t \<longrightarrow> calculate_inverse_wb_setting (PyNum k (Fin t)) = 2300)"
  by (simp add: calculate_inverse_wb_setting_def py_le_def lit_def f64_le_def)

lemma inverse_wb_range:
  "range calculate_inverse_wb_setting = {9000, 7000, 5500, 4000, 3200, 2800, 2300}"
proof (rule equalityI)
  show "range calculate_inverse_wb_setting \<subseteq> {9000, 7000, 5500, 4000, 3200, 2800, 2300}"
    by (auto simp: calculate_inverse_wb_setting_def)
  have v: "calculate_inverse_wb_setting (lit 2000) = 9000"
    "calculate_inverse_wb_setting (lit 3000) = 7000"
    "calculate_inverse_wb_setting (lit 4000) = 5500"
    "calculate_inverse_wb_setting (lit 5500) = 4000"
    "calculate_inverse_wb_setting (lit 7000) = 3200"
    "calculate_inverse_wb_setting (lit 8500) = 2800"
    "calculate_inverse_wb_setting (lit 9000) = 2300"
    by (simp_all add: calculate_inverse_wb_setting_def py_le_def lit_def f64_le_def)
  show "{9000, 7000, 5500, 4000, 3200, 2800, 2300} \<subseteq> range calculate_inverse_wb_setting"
    using rangeI[of calculate_inverse_wb_setting "lit 2000"]
      rangeI[of calculate_inverse_wb_setting "lit 3000"]
      rangeI[of calculate_inverse_wb_setting "lit 4000"]
      rangeI[of calculate_inverse_wb_setting "lit 5500"]
      rangeI[of calculate_inverse_wb_setting "lit 7000"]
      rangeI[of calculate_inverse_wb_setting "lit 8500"]
      rangeI[of calculate_inverse_wb_setting "lit 9000"]
    unfolding v by simp
qed

text \<open>
  C10. On a finite temperature \<open>t\<close>, \<^verbatim>\<open>calculate_inverse_wb_setting\<close> returns 9000 for
  \<open>t \<le> 2000\<close>, 7000 for \<open>2000 < t \<le> 3000\<close>, 5500 for \<open>3000 < t \<le> 4000\<close>, 4000 for
  \<open>4000 < t \<le> 5500\<close>, 3200 for \<open>5500 < t \<le> 7000\<close>, 2800 for \<open>7000 < t \<le> 8500\<close> and 2300
  above 8500; the values it can return are exactly these seven.
\<close>

theorem inverse_wb_setting_table:
  "(t \<le> 2000 \<longrightarrow> calculate_inverse_wb_setting (PyNum k (Fin t)) = 9000)
   \<and> (2000 < t \<and> t \<le> 3000 \<longrightarrow> calculate_inverse_wb_setting (PyNum k (Fin t)) = 7000)
   \<and> (3000 < t \<and> t \<le> 4000 \<longrightarrow> calculate_inverse_wb_setting (PyNum k (Fin t)) = 5500)
   \<and> (4000 < t \<and> t \<le> 5500 \<longrightarrow> calculate_inverse_wb_setting (PyNum k (Fin t)) = 4000)
   \<and> (5500 < t \<and> t \<le> 7000 \<longrightarrow> calculate_inverse_wb_setting (PyNum k (Fin t)) = 3200)
   \<and> (7000 < t \<and> t \<le> 8500 \<longrightarrow> calculate_inverse_wb_setting (PyNum k (Fin t)) = 2800)
   \<and> (8500 < t \<longrightarrow> calculate_inverse_wb_setting (PyNum k (Fin t)) = 2300)
   \<and> range calculate_inverse_wb_setting = {9000, 7000, 5500, 4000, 3200, 2800, 2300}"
  using inverse_wb_bands[of t k] inverse_wb_range by (simp only: simp_thms)

text \<open>C10, at an upper boundary or an inner point of each of the seven buckets.\<close>

theorem inverse_wb_setting_table_witness:
  "calculate_inverse_wb_setting (lit 2000) = 9000
   \<and> calculate_inverse_wb_setting (lit 2500) = 7000
   \<and> calculate_inverse_wb_setting (lit 3500) = 5500
   \<and> calculate_inverse_wb_setting (lit 4000.5) = 4000
   \<and> calculate_inverse_wb_setting (lit 5500) = 4000
   \<and> calculate_inverse_wb_setting (lit 7000) = 3200
   \<and> calculate_inverse_wb_setting (lit 8500) = 2800
   \<and> calculate_inverse_wb_setting (lit 8500.5) = 2300"
  using inverse_wb_setting_table[of 2000 PyFloat] inverse_wb_setting_table[of 2500 PyFloat]
    inverse_wb_setting_table[of 3500 PyFloat] inverse_wb_setting_table[of "4000.5" PyFloat]
    inverse_wb_setting_table[of 5500 PyFloat] inverse_wb_setting_table[of 7000 PyFloat]
    inverse_wb_setting_table[of 8500 PyFloat] inverse_wb_setting_table[of "8500.5" PyFloat]
  by (simp add: lit_def)

section \<open>The white reference under failing operations\<close>


















end
